theory Spec2Isabelle
  imports Complex_Main
begin

section \<open>Settings, results and the flashing tool\<close>

text \<open>
  \<^verbatim>\<open>self.saved_data\<close> is a dict read with \<^verbatim>\<open>.get(key, default)\<close> almost everywhere.
  A field holds \<open>None\<close> when the key is absent. \<^verbatim>\<open>default_settings\<close> has no
  \<^verbatim>\<open>"baud_rate"\<close> key: the key appears only once a settings file or the settings dialog
  has stored it.
\<close>

record saved_data =
  max_retries :: "int option"
  max_parallel_jobs :: "int option"
  max_devices_per_hub :: "int option"
  hub_programming_delay :: "rat option"
  baud_rate :: "int option"

definition default_settings :: saved_data where
  "default_settings =
     \<lparr>max_retries = Some 3, max_parallel_jobs = Some 4, max_devices_per_hub = Some 2,
      hub_programming_delay = Some 2, baud_rate = None\<rparr>"

text \<open>\<^verbatim>\<open>d.get(key, default)\<close> on an optional field.\<close>

definition get :: "'a option \<Rightarrow> 'a \<Rightarrow> 'a" where
  "get v dflt = (case v of None \<Rightarrow> dflt | Some x \<Rightarrow> x)"

datatype exn =
    KeyError string
  | ValueError string
  | Tool_exception string

text \<open>\<^verbatim>\<open>str(e)\<close>; a \<^verbatim>\<open>KeyError\<close> prints its key in quotes.\<close>

fun str :: "exn \<Rightarrow> string" where
  "str (KeyError k) = [CHR 0x27] @ k @ [CHR 0x27]"
| "str (ValueError m) = m"
| "str (Tool_exception m) = m"

text \<open>
  \<^verbatim>\<open>ProgrammingResult\<close>, without the wall-clock fields (\<^verbatim>\<open>duration\<close>, \<^verbatim>\<open>timestamp\<close>)
  and without the serial monitor thread its constructor starts.
\<close>

record programming_result =
  port :: string
  success :: bool
  message :: string
  board_type :: string
  fqbn :: string

text \<open>The arguments of one \<^verbatim>\<open>program_device_with_retry\<close> call.\<close>

record job =
  job_fqbn :: string
  job_port :: string
  job_hub_id :: string

text \<open>
  One call of \<^verbatim>\<open>self.programmer.program_board(firmware_path, fqbn, port)\<close> either returns
  \<^verbatim>\<open>(success, message)\<close> or raises an exception with some text. The tool is an oracle
  from the attempt number to what that call does.
\<close>

datatype tool_outcome = Returns bool string | Raises string

type_synonym tool = "nat \<Rightarrow> tool_outcome"

text \<open>What a job does that can be observed from outside, in order.\<close>

datatype effect =
    Sleep rat
  | Program_board nat
  | Log_retry nat
  | Log_failed nat string
  | Log_exception nat string

text \<open>
  The constructor call
  \<^verbatim>\<open>ProgrammingResult(port, success, message, duration, board_type, fqbn,
  self.saved_data["baud_rate"], self.log_message)\<close>: the subscript raises \<^verbatim>\<open>KeyError\<close>
  when the key is absent.
\<close>

definition ProgrammingResult ::
  "saved_data \<Rightarrow> string \<Rightarrow> job \<Rightarrow> bool \<Rightarrow> string \<Rightarrow> exn + programming_result" where
  "ProgrammingResult sd bt j ok msg =
     (case baud_rate sd of
        None \<Rightarrow> Inl (KeyError ''baud_rate'')
      | Some b \<Rightarrow>
          Inr \<lparr>port = job_port j, success = ok, message = msg, board_type = bt,
               fqbn = job_fqbn j\<rparr>)"

section \<open>The retry loop: \<^verbatim>\<open>program_device_with_retry\<close>\<close>

datatype 'a step = Return 'a | Continue

text \<open>The \<^verbatim>\<open>except Exception as e\<close> block of attempt \<open>a\<close>.\<close>

definition handler ::
  "saved_data \<Rightarrow> string \<Rightarrow> job \<Rightarrow> int \<Rightarrow> nat \<Rightarrow> exn \<Rightarrow>
     (exn + programming_result) step \<times> effect list" where
  "handler sd bt j mr a e =
     (let error_msg = ''Programming exception: '' @ str e
      in if int a = mr then (Return (ProgrammingResult sd bt j False error_msg), [])
         else (Continue, [Log_exception a error_msg]))"

text \<open>The body of \<^verbatim>\<open>for attempt in range(max_retries + 1)\<close> at attempt \<open>a\<close>.\<close>

definition attempt_body ::
  "saved_data \<Rightarrow> tool \<Rightarrow> string \<Rightarrow> job \<Rightarrow> int \<Rightarrow> nat \<Rightarrow>
     (exn + programming_result) step \<times> effect list" where
  "attempt_body sd tool bt j mr a =
     (let pre = (if 0 < a
                 then [Log_retry a, Sleep (if job_hub_id j \<noteq> ''direct'' then 2 else 1)]
                 else []);
          after = (\<lambda>(s, tr). (s, pre @ [Program_board a] @ tr))
      in case tool a of
           Raises txt \<Rightarrow> after (handler sd bt j mr a (Tool_exception txt))
         | Returns ok msg \<Rightarrow>
             (case ProgrammingResult sd bt j ok msg of
                Inl e \<Rightarrow> after (handler sd bt j mr a e)
              | Inr result \<Rightarrow>
                  if ok then after (Return (Inr result), [])
                  else if int a = mr then after (Return (Inr result), [])
                  else after (Continue, [Log_failed a msg])))"

text \<open>
  The loop, at attempt \<open>a\<close> with \<open>k\<close> iterations of the range left. When the range is
  used up the code reaches its fallback \<^verbatim>\<open>"Max retries exceeded"\<close>.
\<close>

fun attempt_loop ::
  "saved_data \<Rightarrow> tool \<Rightarrow> string \<Rightarrow> job \<Rightarrow> int \<Rightarrow> nat \<Rightarrow> nat \<Rightarrow>
     (exn + programming_result) \<times> effect list" where
  "attempt_loop sd tool bt j mr a 0 =
     (ProgrammingResult sd bt j False ''Max retries exceeded'', [])"
| "attempt_loop sd tool bt j mr a (Suc k) =
     (case attempt_body sd tool bt j mr a of
        (Return r, tr) \<Rightarrow> (r, tr)
      | (Continue, tr) \<Rightarrow>
          (case attempt_loop sd tool bt j mr (Suc a) k of (r, tr') \<Rightarrow> (r, tr @ tr')))"

text \<open>
  \<^verbatim>\<open>range(max_retries + 1)\<close> has \<open>nat (max_retries + 1)\<close> elements (none when the
  bound is not positive). \<^verbatim>\<open>time.sleep\<close> raises \<^verbatim>\<open>ValueError\<close> on a negative length,
  and the hub delay is slept outside every \<^verbatim>\<open>try\<close>.
\<close>

definition program_device_with_retry ::
  "saved_data \<Rightarrow> tool \<Rightarrow> string \<Rightarrow> job \<Rightarrow> (exn + programming_result) \<times> effect list" where
  "program_device_with_retry sd tool bt j =
     (let mr = get (max_retries sd) 3
      in if job_hub_id j \<noteq> ''direct''
         then (let hub_delay = get (hub_programming_delay sd) (1 / 2)
               in if hub_delay < 0
                  then (Inl (ValueError ''sleep length must be non-negative''), [])
                  else (case attempt_loop sd tool bt j mr 0 (nat (mr + 1)) of
                          (r, tr) \<Rightarrow> (r, Sleep hub_delay # tr)))
         else attempt_loop sd tool bt j mr 0 (nat (mr + 1)))"

text \<open>The tool calls a job made, and the sleeps it took.\<close>

fun invocations :: "effect list \<Rightarrow> nat list" where
  "invocations [] = []"
| "invocations (Program_board a # es) = a # invocations es"
| "invocations (e # es) = invocations es"


text \<open>
  An attempt fails when the tool returns \<^verbatim>\<open>success = False\<close> or raises; the message of
  the attempt is the tool's message, or \<^verbatim>\<open>"Programming exception: " + str(e)\<close>.
\<close>

fun attempt_failed :: "tool_outcome \<Rightarrow> bool" where
  "attempt_failed (Returns ok msg) = (\<not> ok)"
| "attempt_failed (Raises txt) = True"

fun attempt_message :: "tool_outcome \<Rightarrow> string" where
  "attempt_message (Returns ok msg) = msg"
| "attempt_message (Raises txt) = ''Programming exception: '' @ txt"

section \<open>Session statistics\<close>

record stats =
  total_programmed :: int
  successful :: int
  failed :: int
  session_results :: "programming_result list"

text \<open>The reset in \<^verbatim>\<open>start_programming\<close> (the start time is left out).\<close>

definition start_programming_stats :: stats where
  "start_programming_stats =
     \<lparr>total_programmed = 0, successful = 0, failed = 0, session_results = []\<rparr>"

definition process_programming_result :: "stats \<Rightarrow> programming_result \<Rightarrow> stats" where
  "process_programming_result st result =
     (let st1 = st\<lparr>total_programmed := total_programmed st + 1\<rparr>;
          st2 = st1\<lparr>session_results := session_results st1 @ [result]\<rparr>
      in if success result then st2\<lparr>successful := successful st2 + 1\<rparr>
         else st2\<lparr>failed := failed st2 + 1\<rparr>)"

definition stats_consistent :: "stats \<Rightarrow> bool" where
  "stats_consistent st \<longleftrightarrow>
     total_programmed st = successful st + failed st \<and>
     successful st + failed st = int (length (session_results st))"

section \<open>Hub tracking and admission\<close>

text \<open>
  One entry of \<^verbatim>\<open>get_ports_with_hub_info()\<close>. The key \<^verbatim>\<open>"hub_id"\<close> is always set;
  \<^verbatim>\<open>"hub_level"\<close> only when the hardware id carries a USB location.
\<close>

record port_info =
  info_port :: string
  hub_id :: string
  hub_level :: "int option"

text \<open>\<^verbatim>\<open>hub_load_balancing\<close>: a dict from hub id to the set of ports holding a slot.\<close>

type_synonym hub_load = "string \<rightharpoonup> string set"

definition check_hub_capacity :: "saved_data \<Rightarrow> string \<Rightarrow> hub_load \<Rightarrow> bool" where
  "check_hub_capacity sd hid hlb =
     (let max_devices = get (max_devices_per_hub sd) 2
      in if hid = ''direct'' then True
         else (let current_load = int (card (get (hlb hid) {}))
               in current_load < max_devices))"

text \<open>
  The hub tracking update done for one port, both for a disconnected port and for a
  completed one:
  \<^verbatim>\<open>for hub_id in hub_load_balancing: if port in hub_load_balancing[hub_id]:
  hub_load_balancing[hub_id].remove(port)\<close>.
\<close>

definition release_port :: "string \<Rightarrow> hub_load \<Rightarrow> hub_load" where
  "release_port p hlb =
     (\<lambda>hid. case hlb hid of
              None \<Rightarrow> None
            | Some active \<Rightarrow> Some (if p \<in> active then active - {p} else active))"

text \<open>
  The same update for every port of the set \<^verbatim>\<open>disconnected_ports\<close>; the order in which
  Python walks the set does not matter to the outcome.
\<close>

definition release_ports :: "string set \<Rightarrow> hub_load \<Rightarrow> hub_load" where
  "release_ports ps hlb =
     (\<lambda>hid. case hlb hid of None \<Rightarrow> None | Some active \<Rightarrow> Some (active - ps))"

text \<open>
  The tracking step after admission:
  \<^verbatim>\<open>if hub_id not in hub_load_balancing: hub_load_balancing[hub_id] = set()\<close>, then
  \<^verbatim>\<open>hub_load_balancing[hub_id].add(port)\<close>.
\<close>

definition track_hub_load :: "string \<Rightarrow> string \<Rightarrow> hub_load \<Rightarrow> hub_load" where
  "track_hub_load hid p hlb = hlb(hid \<mapsto> insert p (get (hlb hid) {}))"

section \<open>The dispatch loop: \<^verbatim>\<open>auto_detect_and_program\<close>\<close>

text \<open>
  A future is the number of the submission to the executor together with the job it
  runs. \<open>submitted\<close> is the list of all \<^verbatim>\<open>self.executor.submit\<close> calls so far, so future
  \<open>n\<close> runs \<open>submitted ! n\<close>.
\<close>

type_synonym future = "nat \<times> job"

record session =
  known_ports :: "string set"
  pending_futures :: "(string \<times> future) list"
  hub_load_balancing :: hub_load
  programmed_ports :: "string set"
  submitted :: "job list"
  result_queue :: "programming_result list"

definition initial_session :: session where
  "initial_session =
     \<lparr>known_ports = {}, pending_futures = [], hub_load_balancing = Map.empty,
      programmed_ports = {}, submitted = [], result_queue = []\<rparr>"

text \<open>
  What a job reads while it runs on its worker: the settings, the tool and the selected
  board.
\<close>

record job_env =
  env_settings :: saved_data
  env_tool :: tool
  env_board_type :: string

text \<open>
  What one iteration of the \<^verbatim>\<open>while not self.stop_programming\<close> loop reads from outside:
  the scan (\<open>None\<close> when \<^verbatim>\<open>get_ports_with_hub_info\<close> raises), the mode, the stop flag as
  the inner check sees it, which futures report \<^verbatim>\<open>done()\<close>, and what each job met.
\<close>

record tick_input =
  scan :: "port_info list option"
  mode_var :: string
  stop_programming :: bool
  future_done :: "nat \<Rightarrow> bool"
  future_env :: "nat \<Rightarrow> job_env"

text \<open>\<^verbatim>\<open>future.result()\<close>: the value the job returned, or the exception it raised.\<close>

definition future_result :: "tick_input \<Rightarrow> future \<Rightarrow> exn + programming_result" where
  "future_result inp fut =
     (let env = future_env inp (fst fut)
      in fst (program_device_with_retry (env_settings env) (env_tool env)
                (env_board_type env) (snd fut)))"

text \<open>The loop over \<^verbatim>\<open>disconnected_ports\<close>.\<close>

definition prune_disconnected :: "string set \<Rightarrow> session \<Rightarrow> session" where
  "prune_disconnected disconnected_ports s =
     s\<lparr>pending_futures := filter (\<lambda>(p, fut). p \<notin> disconnected_ports) (pending_futures s),
       hub_load_balancing := release_ports disconnected_ports (hub_load_balancing s)\<rparr>"

text \<open>The body of \<^verbatim>\<open>for port_info in current_ports_info\<close>.\<close>

definition dispatch_one ::
  "saved_data \<Rightarrow> string \<Rightarrow> tick_input \<Rightarrow> string set \<Rightarrow> session \<Rightarrow> port_info \<Rightarrow> session" where
  "dispatch_one sd fq inp new_ports s pinfo =
     (let p = info_port pinfo; hid = hub_id pinfo
      in if mode_var inp = ''Single'' \<and> p \<in> programmed_ports s then s
         else if p \<in> new_ports \<and> \<not> stop_programming inp
                 \<and> p \<notin> fst ` set (pending_futures s)
         then (if check_hub_capacity sd hid (hub_load_balancing s)
               then (let j = \<lparr>job_fqbn = fq, job_port = p, job_hub_id = hid\<rparr>
                     in s\<lparr>hub_load_balancing := track_hub_load hid p (hub_load_balancing s),
                          submitted := submitted s @ [j],
                          pending_futures :=
                            pending_futures s @ [(p, (length (submitted s), j))]\<rparr>)
               else s)
         else s)"

text \<open>
  The body of \<^verbatim>\<open>for port, future in pending_futures.items()\<close>; the second component
  is \<^verbatim>\<open>completed_ports\<close>.
\<close>

definition check_completed ::
  "tick_input \<Rightarrow> session \<times> string list \<Rightarrow> string \<times> future \<Rightarrow> session \<times> string list" where
  "check_completed inp acc entry =
     (case acc of (s, completed_ports) \<Rightarrow>
        (case entry of (p, fut) \<Rightarrow>
           if future_done inp (fst fut)
           then (case future_result inp fut of
                   Inr result \<Rightarrow>
                     (s\<lparr>result_queue := result_queue s @ [result],
                        programmed_ports :=
                          (if mode_var inp = ''Single'' then insert p (programmed_ports s)
                           else programmed_ports s)\<rparr>,
                      completed_ports @ [p])
                 | Inl e \<Rightarrow> (s, completed_ports @ [p]))
           else (s, completed_ports)))"

text \<open>The body of \<^verbatim>\<open>for port in completed_ports\<close>.\<close>

definition remove_completed :: "session \<Rightarrow> string \<Rightarrow> session" where
  "remove_completed s p =
     s\<lparr>pending_futures := filter (\<lambda>(q, fut). q \<noteq> p) (pending_futures s),
       hub_load_balancing := release_port p (hub_load_balancing s)\<rparr>"

text \<open>
  One iteration of the loop. When the scan raises, the \<^verbatim>\<open>except\<close> block logs and the
  iteration changes nothing. The executor accepts every submission: it is shut down only
  by the stop action, which sets the stop flag first.
\<close>

definition tick :: "saved_data \<Rightarrow> string \<Rightarrow> tick_input \<Rightarrow> session \<Rightarrow> session" where
  "tick sd fq inp s =
     (case scan inp of
        None \<Rightarrow> s
      | Some current_ports_info \<Rightarrow>
          (let current_ports = set (map info_port current_ports_info);
               new_ports = current_ports - known_ports s;
               disconnected_ports = known_ports s - current_ports;
               s1 = prune_disconnected disconnected_ports s;
               s2 = foldl (dispatch_one sd fq inp new_ports) s1 current_ports_info;
               s3 = foldl (check_completed inp) (s2, []) (pending_futures s2);
               s4 = foldl remove_completed (fst s3) (snd s3)
           in s4\<lparr>known_ports := current_ports\<rparr>))"

text \<open>
  The iterations that ran before the stop flag ended the loop, each with the settings
  in force during it.
\<close>

definition auto_detect_and_program ::
  "string \<Rightarrow> (saved_data \<times> tick_input) list \<Rightarrow> session \<Rightarrow> session" where
  "auto_detect_and_program fq ticks s = foldl (\<lambda>s (sd, inp). tick sd fq inp s) s ticks"


text \<open>The jobs submitted for port \<open>p\<close>.\<close>

definition jobs_for :: "string \<Rightarrow> session \<Rightarrow> job list" where
  "jobs_for p s = filter (\<lambda>j. job_port j = p) (submitted s)"


definition queue_ok :: "session \<Rightarrow> bool" where
  "queue_ok s \<longleftrightarrow> (\<forall>r \<in> set (result_queue s). port r \<in> programmed_ports s)"

section \<open>Single port mode and the programming manager\<close>



section \<open>Nested hubs: \<^verbatim>\<open>detect_nested_hubs\<close> and the application\<close>







section \<open>Concrete inputs\<close>

text \<open>The inputs on which the theorems below run the code.\<close>

definition tool_always_succeeds :: tool where
  "tool_always_succeeds a = Returns True ''Programming completed successfully''"

definition tool_always_raises :: tool where
  "tool_always_raises a = Raises ''timed out''"


text \<open>Settings as the settings dialog saves them: the defaults plus a baud rate.\<close>

definition saved_settings :: saved_data where
  "saved_settings = default_settings\<lparr>baud_rate := Some 9600\<rparr>"

definition one_device_per_hub :: saved_data where
  "one_device_per_hub = saved_settings\<lparr>max_devices_per_hub := Some 1\<rparr>"

definition uno_job :: "string \<Rightarrow> string \<Rightarrow> job" where
  "uno_job p hid = \<lparr>job_fqbn = ''arduino:avr:uno'', job_port = p, job_hub_id = hid\<rparr>"

definition working_env :: job_env where
  "working_env =
     \<lparr>env_settings = saved_settings, env_tool = tool_always_succeeds,
      env_board_type = ''Arduino Uno''\<rparr>"

definition every_job_works :: "nat \<Rightarrow> job_env" where
  "every_job_works n = working_env"

definition no_future_done :: "nat \<Rightarrow> bool" where
  "no_future_done n = False"

definition every_future_done :: "nat \<Rightarrow> bool" where
  "every_future_done n = True"

definition usb :: "string \<Rightarrow> string \<Rightarrow> port_info" where
  "usb p hid = \<lparr>info_port = p, hub_id = hid, hub_level = None\<rparr>"

definition poll :: "string \<Rightarrow> port_info list \<Rightarrow> (nat \<Rightarrow> bool) \<Rightarrow> tick_input" where
  "poll mode infos done =
     \<lparr>scan = Some infos, mode_var = mode, stop_programming = False, future_done = done,
      future_env = every_job_works\<rparr>"





section \<open>Properties of the statistics\<close>

lemma process_programming_result_consistent:
  "stats_consistent st \<Longrightarrow> stats_consistent (process_programming_result st r)"
  by (simp add: stats_consistent_def process_programming_result_def Let_def)

lemma start_programming_stats_consistent: "stats_consistent start_programming_stats"
  by (simp add: stats_consistent_def start_programming_stats_def)

lemma foldl_process_consistent:
  "stats_consistent st \<Longrightarrow> stats_consistent (foldl process_programming_result st rs)"
  by (induction rs arbitrary: st) (simp_all add: process_programming_result_consistent)

text \<open>
  C3. After the reset of \<^verbatim>\<open>start_programming\<close> and any number of calls of
  \<^verbatim>\<open>process_programming_result\<close>, \<open>total_programmed = successful + failed\<close> and both are
  the length of \<open>session_results\<close>.
\<close>

theorem stats_invariant_after_every_step:
  "total_programmed (foldl process_programming_result start_programming_stats rs)
     = successful (foldl process_programming_result start_programming_stats rs)
       + failed (foldl process_programming_result start_programming_stats rs)
   \<and> successful (foldl process_programming_result start_programming_stats rs)
       + failed (foldl process_programming_result start_programming_stats rs)
     = int (length (session_results
         (foldl process_programming_result start_programming_stats rs)))"
  using foldl_process_consistent [OF start_programming_stats_consistent, of rs]
  by (simp add: stats_consistent_def)

section \<open>Properties of the retry loop\<close>

lemma attempt_body_fail_not_last:
  assumes "baud_rate sd = Some b" "attempt_failed (tool a)" "int a \<noteq> mr"
  shows "fst (attempt_body sd tool bt j mr a) = Continue"
    and "invocations (snd (attempt_body sd tool bt j mr a)) = [a]"
  using assms
  by (cases "tool a"; simp add: attempt_body_def handler_def ProgrammingResult_def Let_def)+

lemma attempt_body_fail_last:
  assumes "baud_rate sd = Some b" "attempt_failed (tool a)" "int a = mr"
  shows "fst (attempt_body sd tool bt j mr a) =
           Return (Inr \<lparr>port = job_port j, success = False,
                        message = attempt_message (tool a), board_type = bt,
                        fqbn = job_fqbn j\<rparr>)"
    and "invocations (snd (attempt_body sd tool bt j mr a)) = [a]"
  using assms
  by (cases "tool a"; simp add: attempt_body_def handler_def ProgrammingResult_def Let_def)+

lemma attempt_body_success:
  assumes "baud_rate sd = Some b" "tool a = Returns True msg"
  shows "fst (attempt_body sd tool bt j mr a) =
           Return (Inr \<lparr>port = job_port j, success = True, message = msg, board_type = bt,
                        fqbn = job_fqbn j\<rparr>)"
    and "invocations (snd (attempt_body sd tool bt j mr a)) = [a]"
  using assms
  by (simp_all add: attempt_body_def handler_def ProgrammingResult_def Let_def)

lemma invocations_append: "invocations (xs @ ys) = invocations xs @ invocations ys"
  by (induction xs rule: invocations.induct) simp_all

lemma attempt_loop_Suc_Continue:
  "fst (attempt_body sd tool bt j mr a) = Continue \<Longrightarrow>
   attempt_loop sd tool bt j mr a (Suc k) =
     (fst (attempt_loop sd tool bt j mr (Suc a) k),
      snd (attempt_body sd tool bt j mr a) @ snd (attempt_loop sd tool bt j mr (Suc a) k))"
  by (cases "attempt_body sd tool bt j mr a") (simp split: prod.splits)

lemma attempt_loop_Suc_Return:
  "fst (attempt_body sd tool bt j mr a) = Return r \<Longrightarrow>
   attempt_loop sd tool bt j mr a (Suc k) = (r, snd (attempt_body sd tool bt j mr a))"
  by (cases "attempt_body sd tool bt j mr a") simp

declare attempt_loop.simps(2) [simp del]

lemma attempt_loop_all_fail:
  assumes "baud_rate sd = Some b"
    and "int a + int k = mr"
    and "\<forall>i. a \<le> i \<and> i \<le> a + k \<longrightarrow> attempt_failed (tool i)"
  shows "fst (attempt_loop sd tool bt j mr a (Suc k)) =
           Inr \<lparr>port = job_port j, success = False,
                 message = attempt_message (tool (a + k)), board_type = bt,
                 fqbn = job_fqbn j\<rparr>
         \<and> invocations (snd (attempt_loop sd tool bt j mr a (Suc k))) = [a..<Suc (a + k)]"
  using assms
proof (induction k arbitrary: a)
  case 0
  then show ?case
    using attempt_body_fail_last [of sd b tool a mr bt j]
    by (simp add: attempt_loop_Suc_Return)
next
  case (Suc k)
  have ne: "int a \<noteq> mr" using Suc.prems(2) by simp
  have fa: "attempt_failed (tool a)" using Suc.prems(3) by simp
  have ih: "fst (attempt_loop sd tool bt j mr (Suc a) (Suc k)) =
           Inr \<lparr>port = job_port j, success = False,
                 message = attempt_message (tool (Suc a + k)), board_type = bt,
                 fqbn = job_fqbn j\<rparr>
         \<and> invocations (snd (attempt_loop sd tool bt j mr (Suc a) (Suc k))) = [Suc a..<Suc (Suc a + k)]"
    using Suc.prems by (intro Suc.IH) auto
  have c: "fst (attempt_body sd tool bt j mr a) = Continue"
    and i: "invocations (snd (attempt_body sd tool bt j mr a)) = [a]"
    using attempt_body_fail_not_last [where tool = tool and a = a, OF Suc.prems(1) fa ne] by simp_all
  have eq: "attempt_loop sd tool bt j mr a (Suc (Suc k)) =
     (fst (attempt_loop sd tool bt j mr (Suc a) (Suc k)),
      snd (attempt_body sd tool bt j mr a) @ snd (attempt_loop sd tool bt j mr (Suc a) (Suc k)))"
    by (rule attempt_loop_Suc_Continue [OF c])
  have u: "[a..<Suc (a + Suc k)] = a # [Suc a..<Suc (Suc a + k)]"
    by (simp add: upt_rec)
  show ?case
    unfolding eq using ih i u
    by (simp add: invocations_append)
qed

lemma attempt_loop_first_success:
  assumes "baud_rate sd = Some b"
    and "a + n \<le> a + k" 
    and "int a + int k = mr"
    and "\<forall>i. a \<le> i \<and> i < a + n \<longrightarrow> attempt_failed (tool i)"
    and "tool (a + n) = Returns True msg"
  shows "fst (attempt_loop sd tool bt j mr a (Suc k)) =
           Inr \<lparr>port = job_port j, success = True, message = msg, board_type = bt,
                 fqbn = job_fqbn j\<rparr>
         \<and> invocations (snd (attempt_loop sd tool bt j mr a (Suc k))) = [a..<Suc (a + n)]"
  using assms
proof (induction n arbitrary: a k)
  case 0
  then show ?case
    using attempt_body_success [of sd b tool a msg bt j mr]
    by (simp add: attempt_loop_Suc_Return)
next
  case (Suc n)
  obtain k' where k: "k = Suc k'" using Suc.prems(2) by (cases k) auto
  have ne: "int a \<noteq> mr" using Suc.prems(3) k by simp
  have fa: "attempt_failed (tool a)" using Suc.prems(4) by simp
  have c: "fst (attempt_body sd tool bt j mr a) = Continue"
    and i: "invocations (snd (attempt_body sd tool bt j mr a)) = [a]"
    using attempt_body_fail_not_last [where tool = tool and a = a, OF Suc.prems(1) fa ne] by simp_all
  have ih: "fst (attempt_loop sd tool bt j mr (Suc a) (Suc k')) =
           Inr \<lparr>port = job_port j, success = True, message = msg, board_type = bt,
                 fqbn = job_fqbn j\<rparr>
         \<and> invocations (snd (attempt_loop sd tool bt j mr (Suc a) (Suc k'))) = [Suc a..<Suc (Suc a + n)]"
    using Suc.prems k by (intro Suc.IH) auto
  have u: "[a..<Suc (a + Suc n)] = a # [Suc a..<Suc (Suc a + n)]"
    by (simp add: upt_rec)
  show ?case
    unfolding k attempt_loop_Suc_Continue [OF c] using ih i u
    by (simp add: invocations_append)
qed


lemma attempt_loop_no_baud_rate:
  "baud_rate sd = None \<Longrightarrow>
   fst (attempt_loop sd tool bt j mr a k) = Inl (KeyError ''baud_rate'')"
proof (induction k arbitrary: a)
  case 0
  then show ?case by (simp add: ProgrammingResult_def)
next
  case (Suc k)
  show ?case
  proof (cases "fst (attempt_body sd tool bt j mr a)")
    case (Return r)
    have "r = Inl (KeyError ''baud_rate'')"
      using Return Suc.prems
      by (cases "tool a")
         (simp_all add: attempt_body_def handler_def ProgrammingResult_def Let_def
            split: if_splits)
    then show ?thesis by (simp add: attempt_loop_Suc_Return [OF Return])
  next
    case Continue
    then show ?thesis
      using Suc.IH [OF Suc.prems] by (simp add: attempt_loop_Suc_Continue)
  qed
qed


lemma program_device_with_retry_all_fail:
  assumes "baud_rate sd = Some b"
    and "0 \<le> get (max_retries sd) 3"
    and "0 \<le> get (hub_programming_delay sd) (1 / 2)"
    and "\<forall>i. int i \<le> get (max_retries sd) 3 \<longrightarrow> attempt_failed (tool i)"
  shows "fst (program_device_with_retry sd tool bt j) =
           Inr \<lparr>port = job_port j, success = False,
                 message = attempt_message (tool (nat (get (max_retries sd) 3))),
                 board_type = bt, fqbn = job_fqbn j\<rparr>
         \<and> invocations (snd (program_device_with_retry sd tool bt j)) =
             [0..<nat (get (max_retries sd) 3 + 1)]"
proof -
  define mr where "mr = get (max_retries sd) 3"
  define k where "k = nat mr"
  have n: "nat (mr + 1) = Suc k" and m: "int 0 + int k = mr"
    using assms(2) by (simp_all add: mr_def k_def)
  have f: "\<forall>i. 0 \<le> i \<and> i \<le> 0 + k \<longrightarrow> attempt_failed (tool i)"
    using assms(2,4) by (simp add: mr_def k_def le_nat_iff)
  show ?thesis
    using attempt_loop_all_fail [where tool = tool and a = 0, OF assms(1) m f, of bt j] assms(3)
    by (auto simp add: program_device_with_retry_def Let_def mr_def [symmetric] n
          k_def [symmetric] split: prod.splits)
qed

lemma program_device_with_retry_first_success:
  assumes "baud_rate sd = Some b"
    and "int n \<le> get (max_retries sd) 3"
    and "0 \<le> get (hub_programming_delay sd) (1 / 2)"
    and "\<forall>i. i < n \<longrightarrow> attempt_failed (tool i)"
    and "tool n = Returns True msg"
  shows "fst (program_device_with_retry sd tool bt j) =
           Inr \<lparr>port = job_port j, success = True, message = msg,
                 board_type = bt, fqbn = job_fqbn j\<rparr>
         \<and> invocations (snd (program_device_with_retry sd tool bt j)) = [0..<Suc n]"
proof -
  define mr where "mr = get (max_retries sd) 3"
  define k where "k = nat mr"
  have n: "nat (mr + 1) = Suc k" and m: "int 0 + int k = mr" and le: "0 + n \<le> 0 + k"
    using assms(2) by (simp_all add: mr_def k_def)
  have f: "\<forall>i. 0 \<le> i \<and> i < 0 + n \<longrightarrow> attempt_failed (tool i)"
    using assms(4) by simp
  have s: "tool (0 + n) = Returns True msg" using assms(5) by simp
  show ?thesis
    using attempt_loop_first_success [where tool = tool and a = 0, OF assms(1) le m f s, of bt j]
      assms(3)
    by (auto simp add: program_device_with_retry_def Let_def mr_def [symmetric] n
          split: prod.splits)
qed


lemma program_device_with_retry_no_baud_rate:
  assumes "baud_rate sd = None" and "job_hub_id j = ''direct''"
  shows "fst (program_device_with_retry sd tool bt j) = Inl (KeyError ''baud_rate'')"
  using attempt_loop_no_baud_rate [OF assms(1)] assms(2)
  by (simp add: program_device_with_retry_def Let_def)

text \<open>
  The lemmas above describe the loop when \<^verbatim>\<open>saved_data\<close> holds a \<^verbatim>\<open>"baud_rate"\<close>,
  \<^verbatim>\<open>max_retries\<close> is not negative and the hub delay is not negative: a job whose every
  attempt fails calls the tool \<open>max_retries + 1\<close> times and returns the last attempt's
  message, a job stops at its first successful attempt, and a result is always returned.
  Without the key the loop behaves differently, as the next two theorems show on the
  default settings.
\<close>

text \<open>
  C4. With the default settings (no \<^verbatim>\<open>"baud_rate"\<close> key) and a tool that succeeds at
  once, the job does not return after attempt 0: building the result raises
  \<^verbatim>\<open>KeyError\<close>, the attempt is retried, the tool is called four times and the job ends
  with the exception.
\<close>

theorem retry_after_success_on_default_settings:
  "fst (program_device_with_retry default_settings tool_always_succeeds ''Arduino Uno''
          (uno_job ''COM3'' ''direct''))
     = Inl (KeyError ''baud_rate'')
   \<and> invocations (snd (program_device_with_retry default_settings tool_always_succeeds
          ''Arduino Uno'' (uno_job ''COM3'' ''direct'')))
     = [0, 1, 2, 3]"
  by (simp add: program_device_with_retry_def default_settings_def get_def Let_def
        eval_nat_numeral attempt_loop.simps(2) attempt_body_def handler_def
        ProgrammingResult_def tool_always_succeeds_def uno_job_def)

text \<open>
  C7. With the default settings and a tool that raises at every attempt, the handler of
  the final attempt raises \<^verbatim>\<open>KeyError\<close> itself while it builds the failed result, and
  the exception leaves \<^verbatim>\<open>program_device_with_retry\<close>.
\<close>

theorem exception_escapes_on_default_settings:
  "fst (program_device_with_retry default_settings tool_always_raises ''Arduino Uno''
          (uno_job ''/dev/ttyUSB0'' ''direct''))
     = Inl (KeyError ''baud_rate'')"
  by (simp add: program_device_with_retry_def default_settings_def get_def Let_def
        eval_nat_numeral attempt_loop.simps(2) attempt_body_def handler_def
        ProgrammingResult_def tool_always_raises_def uno_job_def)

section \<open>Properties of the dispatch loop\<close>

subsection \<open>What each phase of an iteration changes\<close>

lemma prune_disconnected_fields [simp]:
  "submitted (prune_disconnected d s) = submitted s"
  "result_queue (prune_disconnected d s) = result_queue s"
  "programmed_ports (prune_disconnected d s) = programmed_ports s"
  "known_ports (prune_disconnected d s) = known_ports s"
  "pending_futures (prune_disconnected d s) = filter (\<lambda>(p, fut). p \<notin> d) (pending_futures s)"
  "hub_load_balancing (prune_disconnected d s) = release_ports d (hub_load_balancing s)"
  by (simp_all add: prune_disconnected_def)

lemma remove_completed_fields [simp]:
  "submitted (remove_completed s p) = submitted s"
  "result_queue (remove_completed s p) = result_queue s"
  "programmed_ports (remove_completed s p) = programmed_ports s"
  "known_ports (remove_completed s p) = known_ports s"
  "pending_futures (remove_completed s p) = filter (\<lambda>(q, fut). q \<noteq> p) (pending_futures s)"
  "hub_load_balancing (remove_completed s p) = release_port p (hub_load_balancing s)"
  by (simp_all add: remove_completed_def)

lemma foldl_remove_completed_fields [simp]:
  "submitted (foldl remove_completed s ps) = submitted s"
  "result_queue (foldl remove_completed s ps) = result_queue s"
  "programmed_ports (foldl remove_completed s ps) = programmed_ports s"
  "known_ports (foldl remove_completed s ps) = known_ports s"
  by (induction ps arbitrary: s) simp_all


lemma dispatch_one_fields [simp]:
  "result_queue (dispatch_one sd fq inp np s pinfo) = result_queue s"
  "programmed_ports (dispatch_one sd fq inp np s pinfo) = programmed_ports s"
  "known_ports (dispatch_one sd fq inp np s pinfo) = known_ports s"
  by (simp_all add: dispatch_one_def Let_def)

lemma foldl_dispatch_one_fields [simp]:
  "result_queue (foldl (dispatch_one sd fq inp np) s infos) = result_queue s"
  "programmed_ports (foldl (dispatch_one sd fq inp np) s infos) = programmed_ports s"
  "known_ports (foldl (dispatch_one sd fq inp np) s infos) = known_ports s"
  by (induction infos arbitrary: s) simp_all

lemma check_completed_fields [simp]:
  "submitted (fst (check_completed inp acc e)) = submitted (fst acc)"
  "pending_futures (fst (check_completed inp acc e)) = pending_futures (fst acc)"
  "hub_load_balancing (fst (check_completed inp acc e)) = hub_load_balancing (fst acc)"
  "known_ports (fst (check_completed inp acc e)) = known_ports (fst acc)"
  by (simp_all add: check_completed_def split: prod.splits sum.splits)

lemma foldl_check_completed_fields [simp]:
  "submitted (fst (foldl (check_completed inp) acc es)) = submitted (fst acc)"
  "pending_futures (fst (foldl (check_completed inp) acc es)) = pending_futures (fst acc)"
  "hub_load_balancing (fst (foldl (check_completed inp) acc es)) = hub_load_balancing (fst acc)"
  "known_ports (fst (foldl (check_completed inp) acc es)) = known_ports (fst acc)"
  by (induction es arbitrary: acc) simp_all

text \<open>What a tick does to the list of submissions: only the dispatch phase adds to it.\<close>

lemma tick_submitted:
  "scan inp = Some infos \<Longrightarrow>
   submitted (tick sd fq inp s) =
     submitted (foldl (dispatch_one sd fq inp (set (map info_port infos) - known_ports s))
       (prune_disconnected (known_ports s - set (map info_port infos)) s) infos)"
  by (simp add: tick_def Let_def)

lemma tick_scan_None [simp]: "scan inp = None \<Longrightarrow> tick sd fq inp s = s"
  by (simp add: tick_def)

lemma tick_known_ports:
  "scan inp = Some infos \<Longrightarrow> known_ports (tick sd fq inp s) = set (map info_port infos)"
  by (simp add: tick_def Let_def)

subsection \<open>The jobs of one port\<close>

lemma dispatch_one_jobs_for_other:
  "info_port pinfo \<noteq> p \<Longrightarrow> jobs_for p (dispatch_one sd fq inp np s pinfo) = jobs_for p s"
  by (simp add: dispatch_one_def jobs_for_def Let_def)

lemma dispatch_one_not_new:
  "info_port pinfo \<notin> np \<Longrightarrow> dispatch_one sd fq inp np s pinfo = s"
  by (simp add: dispatch_one_def Let_def)



lemma foldl_dispatch_jobs_for_not_new:
  "p \<notin> np \<Longrightarrow> jobs_for p (foldl (dispatch_one sd fq inp np) s infos) = jobs_for p s"
proof (induction infos arbitrary: s)
  case Nil
  then show ?case by simp
next
  case (Cons pinfo infos)
  show ?case
  proof (cases "info_port pinfo = p")
    case True
    then show ?thesis using Cons by (simp add: dispatch_one_not_new)
  next
    case False
    then show ?thesis using Cons by (simp add: dispatch_one_jobs_for_other)
  qed
qed


lemma jobs_for_prune [simp]: "jobs_for p (prune_disconnected d s) = jobs_for p s"
  by (simp add: jobs_for_def)

lemma tick_jobs_for:
  "scan inp = Some infos \<Longrightarrow>
   jobs_for p (tick sd fq inp s) =
     jobs_for p (foldl (dispatch_one sd fq inp (set (map info_port infos) - known_ports s))
       (prune_disconnected (known_ports s - set (map info_port infos)) s) infos)"
  by (simp add: jobs_for_def tick_submitted)

text \<open>A port of the previous scan is never dispatched by the next iteration.\<close>

lemma tick_known_port_not_dispatched:
  "p \<in> known_ports s \<Longrightarrow> jobs_for p (tick sd fq inp s) = jobs_for p s"
proof (cases "scan inp")
  case None
  then show ?thesis by simp
next
  case (Some infos)
  assume "p \<in> known_ports s"
  then have "p \<notin> set (map info_port infos) - known_ports s" by simp
  then show ?thesis
    by (simp add: tick_jobs_for [OF Some] foldl_dispatch_jobs_for_not_new)
qed


subsection \<open>Tracked futures\<close>









subsection \<open>Results carry the port of their job\<close>







subsection \<open>Single batch mode\<close>

lemma queue_ok_cong:
  "result_queue s' = result_queue s \<Longrightarrow> programmed_ports s' = programmed_ports s \<Longrightarrow>
   queue_ok s' = queue_ok s"
  by (simp add: queue_ok_def)








lemma run_Cons:
  "auto_detect_and_program fq ((sd, inp) # ticks) s =
     auto_detect_and_program fq ticks (tick sd fq inp s)"
  by (simp add: auto_detect_and_program_def)

lemma run_Nil [simp]: "auto_detect_and_program fq [] s = s"
  by (simp add: auto_detect_and_program_def)






section \<open>Admission and release\<close>

text \<open>
  C2. \<^verbatim>\<open>check_hub_capacity\<close> admits every port of the hub group \<^verbatim>\<open>"direct"\<close> whatever
  the load; for any other group it admits exactly when the number of ports in the
  group's active set is below \<^verbatim>\<open>max_devices_per_hub\<close> (2 when the setting is absent).
  A port that reaches the check in the dispatch loop and is admitted is added to its
  group's active set; a port that is refused leaves the state as it was.
\<close>

theorem check_hub_capacity_admission:
  "check_hub_capacity sd ''direct'' hlb
   \<and> (hid \<noteq> ''direct'' \<longrightarrow>
        check_hub_capacity sd hid hlb
          = (int (card (get (hlb hid) {})) < get (max_devices_per_hub sd) 2))
   \<and> (info_port pinfo \<in> np \<and> \<not> stop_programming inp
        \<and> \<not> (mode_var inp = ''Single'' \<and> info_port pinfo \<in> programmed_ports s)
        \<and> info_port pinfo \<notin> fst ` set (pending_futures s) \<longrightarrow>
        (if check_hub_capacity sd (hub_id pinfo) (hub_load_balancing s)
         then hub_load_balancing (dispatch_one sd fq inp np s pinfo) (hub_id pinfo)
                = Some (insert (info_port pinfo)
                          (get (hub_load_balancing s (hub_id pinfo)) {}))
         else dispatch_one sd fq inp np s pinfo = s))"
  by (simp add: check_hub_capacity_def dispatch_one_def track_hub_load_def Let_def)

text \<open>The check on a hub with one and with two active ports, and an admission.\<close>

theorem check_hub_capacity_admission_witness:
  "''1-2'' \<noteq> ''direct''
   \<and> check_hub_capacity default_settings ''1-2'' [''1-2'' \<mapsto> {''COM3''}]
   \<and> \<not> check_hub_capacity default_settings ''1-2'' [''1-2'' \<mapsto> {''COM3'', ''COM4''}]
   \<and> hub_load_balancing
        (dispatch_one default_settings ''arduino:avr:uno'' (poll ''Continuous'' [] no_future_done)
           {''COM5''} (initial_session\<lparr>hub_load_balancing := [''1-2'' \<mapsto> {''COM3''}]\<rparr>)
           (usb ''COM5'' ''1-2'')) ''1-2''
      = Some {''COM5'', ''COM3''}"
proof -
  let ?s = "initial_session\<lparr>hub_load_balancing := [''1-2'' \<mapsto> {''COM3''}]\<rparr>"
  let ?inp = "poll ''Continuous'' [] no_future_done"
  have n: "''1-2'' \<noteq> ''direct''" by simp
  have c1: "check_hub_capacity default_settings ''1-2'' [''1-2'' \<mapsto> {''COM3''}]"
    using check_hub_capacity_admission [of default_settings "[''1-2'' \<mapsto> {''COM3''}]" "''1-2''"]
    by (simp add: default_settings_def get_def)
  have c2: "\<not> check_hub_capacity default_settings ''1-2'' [''1-2'' \<mapsto> {''COM3'', ''COM4''}]"
    using check_hub_capacity_admission
      [of default_settings "[''1-2'' \<mapsto> {''COM3'', ''COM4''}]" "''1-2''"]
    by (simp add: default_settings_def get_def)
  have h: "info_port (usb ''COM5'' ''1-2'') \<in> {''COM5''} \<and> \<not> stop_programming ?inp
        \<and> \<not> (mode_var ?inp = ''Single'' \<and> info_port (usb ''COM5'' ''1-2'') \<in> programmed_ports ?s)
        \<and> info_port (usb ''COM5'' ''1-2'') \<notin> fst ` set (pending_futures ?s)"
    by (simp add: usb_def poll_def initial_session_def)
  have c: "check_hub_capacity default_settings (hub_id (usb ''COM5'' ''1-2''))
             (hub_load_balancing ?s)"
    using c1 by (simp add: usb_def)
  have "hub_load_balancing
          (dispatch_one default_settings ''arduino:avr:uno'' ?inp {''COM5''} ?s
             (usb ''COM5'' ''1-2'')) (hub_id (usb ''COM5'' ''1-2''))
        = Some (insert (info_port (usb ''COM5'' ''1-2''))
                  (get (hub_load_balancing ?s (hub_id (usb ''COM5'' ''1-2''))) {}))"
    using check_hub_capacity_admission [of default_settings "[''1-2'' \<mapsto> {''COM3''}]" "''1-2''"
      "usb ''COM5'' ''1-2''" "{''COM5''}" ?inp ?s "''arduino:avr:uno''"] h c
    by presburger
  then show ?thesis
    using n c1 c2 by (simp add: usb_def get_def)
qed

text \<open>
  C9. Releasing a port twice gives the same hub tracking as releasing it once, a port
  that holds no slot is released without any change, and a release after the port was
  already removed by the disconnect handling (or the other way round) changes nothing
  more.
\<close>

theorem release_port_idempotent:
  "release_port p (release_port p hlb) = release_port p hlb
   \<and> ((\<forall>hid active. hlb hid = Some active \<longrightarrow> p \<notin> active) \<longrightarrow> release_port p hlb = hlb)
   \<and> (p \<in> d \<longrightarrow> release_port p (release_ports d hlb) = release_ports d hlb
               \<and> release_ports d (release_port p hlb) = release_ports d hlb)"
  by (auto simp add: release_port_def release_ports_def fun_eq_iff split: option.splits)

text \<open>A release of an absent port, a release after a disconnect, and a double release.\<close>

theorem release_port_idempotent_witness:
  "release_port ''COM5'' [''1-2'' \<mapsto> {''COM3''}] = [''1-2'' \<mapsto> {''COM3''}]
   \<and> ''COM3'' \<in> {''COM3'', ''COM4''}
   \<and> release_port ''COM3'' (release_ports {''COM3'', ''COM4''} [''1-2'' \<mapsto> {''COM3''}])
       = release_ports {''COM3'', ''COM4''} [''1-2'' \<mapsto> {''COM3''}]
   \<and> release_port ''COM3'' (release_port ''COM3'' [''1-2'' \<mapsto> {''COM3''}])
       = [''1-2'' \<mapsto> {}]"
proof -
  have h: "\<forall>hid active. [''1-2'' \<mapsto> {''COM3''}] hid = Some active \<longrightarrow> ''COM5'' \<notin> active"
    by simp
  have r: "release_port ''COM3'' [''1-2'' \<mapsto> {''COM3''}] = [''1-2'' \<mapsto> {}]"
    by (simp add: release_port_def fun_eq_iff)
  show ?thesis
    using h r release_port_idempotent [of "''COM5''" "[''1-2'' \<mapsto> {''COM3''}]" "{}"]
      release_port_idempotent [of "''COM3''" "[''1-2'' \<mapsto> {''COM3''}]" "{''COM3'', ''COM4''}"]
    by simp
qed


section \<open>Running the loop on concrete scans\<close>

text \<open>The definitions a concrete run unfolds.\<close>

lemmas tick_defs = auto_detect_and_program_def tick_def prune_disconnected_def dispatch_one_def
  check_completed_def remove_completed_def check_hub_capacity_def track_hub_load_def
  release_port_def release_ports_def initial_session_def get_def Let_def future_result_def
  poll_def usb_def no_future_done_def every_future_done_def every_job_works_def working_env_def
  saved_settings_def default_settings_def one_device_per_hub_def uno_job_def
  tool_always_succeeds_def

lemmas retry_defs = program_device_with_retry_def attempt_loop.simps(2) attempt_body_def
  handler_def ProgrammingResult_def eval_nat_numeral

section \<open>One tracked future per port\<close>






section \<open>A port refused at capacity\<close>

text \<open>
  The end of every iteration sets \<^verbatim>\<open>known_ports = current_ports\<close>, and only ports of
  \<^verbatim>\<open>current_ports - known_ports\<close> are dispatched: a port that stays connected is never
  looked at again, whatever happened to it in the iteration that first saw it.
\<close>

lemma run_known_port_not_dispatched:
  assumes "p \<in> known_ports s"
    and "\<forall>t \<in> set ticks. \<forall>infos. scan (snd t) = Some infos \<longrightarrow> p \<in> set (map info_port infos)"
  shows "jobs_for p (auto_detect_and_program fq ticks s) = jobs_for p s"
  using assms
proof (induction ticks arbitrary: s)
  case Nil
  then show ?case by simp
next
  case (Cons t ticks)
  obtain sd inp where t: "t = (sd, inp)" by (cases t)
  have k: "p \<in> known_ports (tick sd fq inp s)"
  proof (cases "scan inp")
    case None
    then show ?thesis using Cons.prems(1) by simp
  next
    case (Some infos)
    then show ?thesis using Cons.prems(2) t by (simp add: tick_known_ports)
  qed
  have "jobs_for p (auto_detect_and_program fq ticks (tick sd fq inp s)) =
          jobs_for p (tick sd fq inp s)"
    using Cons.prems(2) k by (intro Cons.IH) simp_all
  then show ?case
    unfolding t run_Cons by (simp add: tick_known_port_not_dispatched [OF Cons.prems(1)])
qed

text \<open>
  C5. Hub capacity 1, ports \<^verbatim>\<open>COM3\<close> and \<^verbatim>\<open>COM4\<close> on hub \<^verbatim>\<open>1-2\<close>, both connected
  throughout. The first iteration admits \<^verbatim>\<open>COM3\<close> and logs that \<^verbatim>\<open>COM4\<close> is delayed.
  The second collects the result of \<^verbatim>\<open>COM3\<close> and releases its slot, so the hub is empty.
  Two more iterations pass and \<^verbatim>\<open>COM4\<close> is still not submitted.
\<close>

theorem delayed_port_never_admitted:
  "submitted (auto_detect_and_program ''arduino:avr:uno''
      [(one_device_per_hub,
        poll ''Continuous'' [usb ''COM3'' ''1-2'', usb ''COM4'' ''1-2''] no_future_done),
       (one_device_per_hub,
        poll ''Continuous'' [usb ''COM3'' ''1-2'', usb ''COM4'' ''1-2''] every_future_done),
       (one_device_per_hub,
        poll ''Continuous'' [usb ''COM3'' ''1-2'', usb ''COM4'' ''1-2''] no_future_done),
       (one_device_per_hub,
        poll ''Continuous'' [usb ''COM3'' ''1-2'', usb ''COM4'' ''1-2''] no_future_done)]
      initial_session) = [uno_job ''COM3'' ''1-2'']
   \<and> hub_load_balancing (auto_detect_and_program ''arduino:avr:uno''
      [(one_device_per_hub,
        poll ''Continuous'' [usb ''COM3'' ''1-2'', usb ''COM4'' ''1-2''] no_future_done),
       (one_device_per_hub,
        poll ''Continuous'' [usb ''COM3'' ''1-2'', usb ''COM4'' ''1-2''] every_future_done)]
      initial_session) ''1-2'' = Some {}
   \<and> length (result_queue (auto_detect_and_program ''arduino:avr:uno''
      [(one_device_per_hub,
        poll ''Continuous'' [usb ''COM3'' ''1-2'', usb ''COM4'' ''1-2''] no_future_done),
       (one_device_per_hub,
        poll ''Continuous'' [usb ''COM3'' ''1-2'', usb ''COM4'' ''1-2''] every_future_done)]
      initial_session)) = 1"
  by (simp add: tick_defs retry_defs)


section \<open>Single batch mode and continuous mode\<close>





section \<open>Nested hubs\<close>










section \<open>Single port mode\<close>








end
